theory Spec2Isabelle
  imports Main
begin

section \<open>Values of the host language\<close>

text \<open>
  The node is a JavaScript program. A property that is \<open>null\<close> or a string is an
  \<open>option\<close>; the four token properties of a transaction can also be \<open>undefined\<close>
  (while the constructor runs they are not assigned yet), so they get a type of
  their own. Exceptions are values of the type \<open>error\<close>.
\<close>

datatype 'a slot = Undefined | Null | Val 'a

datatype error =
    SignatureMissing    \<comment> \<open>"Transaction signature is missing or invalid!"\<close>
  | SignatureInvalid    \<comment> \<open>"Transaction signature is invalid!"\<close>
  | HashMismatch        \<comment> \<open>"Transaction hash does not match expected hash!"\<close>
  | InvalidTransaction  \<comment> \<open>"Invalid transaction."\<close>
  | SignFailed          \<comment> \<open>"Failed to sign ..."\<close>
  | InvalidOriginHash   \<comment> \<open>"Previous block has an invalid origin transaction hash"\<close>
  | TypeError           \<comment> \<open>a property read on \<open>undefined\<close>\<close>
  | StoreError          \<comment> \<open>a rejected database query\<close>
  | DuplicateEntry      \<comment> \<open>a rejected insert, with code \<open>ER_DUP_ENTRY\<close>\<close>

text \<open>
  Amounts are the values \<open>decimal.js\<close> accepts: a finite decimal, held as an integer
  number of units of \<open>10\<^sup>-\<^sup>8\<close>, or \<open>NaN\<close>.
\<close>

datatype amount = Dec int | NaN

definition digit_char :: "nat \<Rightarrow> char" where
  "digit_char d = ''0123456789'' ! d"

fun show_nat :: "nat \<Rightarrow> string" where
  "show_nat n = (if n < 10 then [digit_char n] else show_nat (n div 10) @ [digit_char (n mod 10)])"

definition pad8 :: "string \<Rightarrow> string" where
  "pad8 s = replicate (8 - length s) CHR ''0'' @ s"

text \<open>\<open>new Decimal(a).toFixed(8)\<close>\<close>

fun toFixed8 :: "amount \<Rightarrow> string" where
  "toFixed8 NaN = ''NaN''"
| "toFixed8 (Dec i) =
     (if i < 0 then ''-'' else '''') @ show_nat (nat \<bar>i\<bar> div 100000000) @ ''.'' @
     pad8 (show_nat (nat \<bar>i\<bar> mod 100000000))"

text \<open>
  \<open>JSON.stringify\<close> of a flat object: a property whose value is \<open>undefined\<close> is
  left out, \<open>null\<close> is written as \<open>null\<close>. Strings are taken to hold no control
  characters (addresses and hashes are hexadecimal).
\<close>

datatype json = JUndefined | JNull | JString string | JNumber nat

fun escape :: "string \<Rightarrow> string" where
  "escape [] = []"
| "escape (c # cs) =
     (if c = CHR 0x22 \<or> c = CHR 0x5C then CHR 0x5C # c # escape cs else c # escape cs)"

definition quote :: "string \<Rightarrow> string" where
  "quote s = CHR 0x22 # escape s @ [CHR 0x22]"

fun stringify_value :: "json \<Rightarrow> string" where
  "stringify_value JUndefined = []"
| "stringify_value JNull = ''null''"
| "stringify_value (JString s) = quote s"
| "stringify_value (JNumber n) = show_nat n"

fun members :: "(string \<times> json) list \<Rightarrow> string list" where
  "members [] = []"
| "members ((k, v) # kvs) =
     (if v = JUndefined then members kvs else (quote k @ '':'' @ stringify_value v) # members kvs)"

fun join :: "string \<Rightarrow> string list \<Rightarrow> string" where
  "join sep [] = []"
| "join sep [s] = s"
| "join sep (s # t # ss) = s @ sep @ join sep (t # ss)"

definition JSON_stringify :: "(string \<times> json) list \<Rightarrow> string" where
  "JSON_stringify obj = ''{'' @ join '','' (members obj) @ ''}''"

fun json_of_string :: "string option \<Rightarrow> json" where
  "json_of_string None = JNull"
| "json_of_string (Some s) = JString s"

fun json_of_string_prop :: "string slot \<Rightarrow> json" where
  "json_of_string_prop Undefined = JUndefined"
| "json_of_string_prop Null = JNull"
| "json_of_string_prop (Val s) = JString s"

fun json_of_nat_prop :: "nat slot \<Rightarrow> json" where
  "json_of_nat_prop Undefined = JUndefined"
| "json_of_nat_prop Null = JNull"
| "json_of_nat_prop (Val n) = JNumber n"

text \<open>Truthiness of a string or \<open>null\<close>: \<open>null\<close> and the empty string are falsy.\<close>

fun truthy :: "string option \<Rightarrow> bool" where
  "truthy None = False"
| "truthy (Some s) = (s \<noteq> [])"

section \<open>The libraries\<close>

text \<open>
  SHA-256 and the secp256k1 operations of \<open>elliptic\<close> are parameters of the model,
  and so is the root of the Merkle tree (the repository's \<open>merkleTree.js\<close>).
  A library call that throws returns \<open>None\<close>.
\<close>

record env =
  sha256 :: "string \<Rightarrow> string"
  keyFromPublic :: "string \<Rightarrow> string option"
  verify :: "string \<Rightarrow> string \<Rightarrow> string \<Rightarrow> bool option"
  getPublic :: "string \<Rightarrow> string"
  sign :: "string \<Rightarrow> string \<Rightarrow> string option"
  getRootHash :: "string list \<Rightarrow> string"

section \<open>Transaction\<close>

record transaction =
  fromAddress :: "string option"
  toAddress :: string
  amount :: amount
  timestamp :: nat
  signature :: "string option"
  blockHash :: "string option"
  originTransactionHash :: "string option"
  publicKey :: "string option"
  hash :: string
  index_in_block :: "nat option"
  tokenId :: "nat slot"
  tokenName :: "string slot"
  tokenSymbol :: "string slot"
  tokenTotalSupply :: "nat slot"

text \<open>The object that \<open>calculateHash\<close> serialises, property by property.\<close>

definition hash_data :: "transaction \<Rightarrow> (string \<times> json) list" where
  "hash_data tx =
     [(''fromAddress'', json_of_string (fromAddress tx)),
      (''toAddress'', JString (toAddress tx)),
      (''amount'', JString (toFixed8 (amount tx))),
      (''tokenId'', json_of_nat_prop (tokenId tx)),
      (''tokenName'', json_of_string_prop (tokenName tx)),
      (''tokenSymbol'', json_of_string_prop (tokenSymbol tx)),
      (''tokenTotalSupply'', json_of_nat_prop (tokenTotalSupply tx)),
      (''originTransactionHash'', json_of_string (originTransactionHash tx)),
      (''timestamp'', JNumber (timestamp tx))]"

definition calculateHash :: "env \<Rightarrow> transaction \<Rightarrow> string" where
  "calculateHash e tx = sha256 e (JSON_stringify (hash_data tx))"

text \<open>A default parameter value \<open>= null\<close> replaces an argument that is \<open>undefined\<close>.\<close>

fun default_null :: "'a slot \<Rightarrow> 'a slot" where
  "default_null Undefined = Null"
| "default_null p = p"

text \<open>
  The constructor assigns the properties in the order of the source: the hash is
  computed after \<open>publicKey\<close> and before \<open>index_in_block\<close> and the token properties,
  which are still \<open>undefined\<close> at that point.
\<close>

definition Transaction_new ::
  "env \<Rightarrow> string option \<Rightarrow> string \<Rightarrow> amount \<Rightarrow> nat \<Rightarrow> string option \<Rightarrow> string option \<Rightarrow>
   string option \<Rightarrow> string option \<Rightarrow> nat option \<Rightarrow> nat slot \<Rightarrow> string slot \<Rightarrow> string slot \<Rightarrow>
   nat slot \<Rightarrow> transaction" where
  "Transaction_new e fromA toA amt ts sig bh oth pk iib tid tname tsym tsupply =
     (let this = \<lparr>fromAddress = fromA, toAddress = toA, amount = amt, timestamp = ts,
                  signature = sig, blockHash = bh, originTransactionHash = oth,
                  publicKey = pk, hash = [], index_in_block = None,
                  tokenId = Undefined, tokenName = Undefined, tokenSymbol = Undefined,
                  tokenTotalSupply = Undefined\<rparr>;
          this = this\<lparr>hash := calculateHash e this\<rparr>
      in this\<lparr>index_in_block := iib,
              tokenId := default_null tid,
              tokenName := default_null tname,
              tokenSymbol := default_null tsym,
              tokenTotalSupply := default_null tsupply\<rparr>)"

text \<open>\<open>Transaction.fromJSON\<close>: the constructor, then the hash of the data.\<close>

definition Transaction_fromJSON :: "env \<Rightarrow> transaction \<Rightarrow> transaction" where
  "Transaction_fromJSON e d =
     (Transaction_new e (fromAddress d) (toAddress d) (amount d) (timestamp d) (signature d)
        (blockHash d) (originTransactionHash d) (publicKey d) (index_in_block d)
        (tokenId d) (tokenName d) (tokenSymbol d) (tokenTotalSupply d))\<lparr>hash := hash d\<rparr>"

text \<open>
  \<open>signWithKeyPair\<close>: the key pair is its private key. Any exception inside the
  \<open>try\<close> is rethrown as one error; nothing has been assigned when the library throws.
\<close>

definition signWithKeyPair :: "env \<Rightarrow> string \<Rightarrow> transaction \<Rightarrow> error + transaction" where
  "signWithKeyPair e keyPair tx =
     (let dataToSign = calculateHash e tx in
      case sign e keyPair dataToSign of
        None \<Rightarrow> Inl SignFailed
      | Some der \<Rightarrow>
          (let tx = tx\<lparr>signature := Some der\<rparr>;
               tx = tx\<lparr>publicKey := Some (getPublic e keyPair)\<rparr>
           in Inr (tx\<lparr>hash := calculateHash e tx\<rparr>)))"

text \<open>
  \<open>signWithAddress\<close>: \<open>loadWallet\<close> reads the wallet file of the address (here a
  map from addresses to private keys) and throws when there is none.
\<close>

definition signWithAddress ::
  "env \<Rightarrow> (string \<rightharpoonup> string) \<Rightarrow> string \<Rightarrow> transaction \<Rightarrow> error + transaction" where
  "signWithAddress e wallets address tx =
     (case wallets address of
        None \<Rightarrow> Inl SignFailed
      | Some privateKey \<Rightarrow>
          (let publicKey' = getPublic e privateKey;
               hashTx = calculateHash e tx in
           case sign e privateKey hashTx of
             None \<Rightarrow> Inl SignFailed
           | Some der \<Rightarrow>
               (let tx = tx\<lparr>signature := Some der\<rparr>;
                    tx = tx\<lparr>publicKey := Some publicKey'\<rparr>
                in Inr (tx\<lparr>hash := calculateHash e tx\<rparr>))))"

text \<open>
  \<open>isValid\<close>: \<open>Inr b\<close> is the boolean it returns, \<open>Inl\<close> the exception it throws.
  \<open>!s || s.length === 0\<close> holds of \<open>null\<close> and of the empty string. A missing public
  key and every exception of the library end in the same rethrown error.
\<close>

definition isValid :: "env \<Rightarrow> transaction \<Rightarrow> error + bool" where
  "isValid e tx =
     (let hashToVerify = calculateHash e tx in
      if fromAddress tx = None then Inr True
      else (case signature tx of
        None \<Rightarrow> Inl SignatureMissing
      | Some sg \<Rightarrow>
          if sg = [] then Inl SignatureMissing
          else (case publicKey tx of
            None \<Rightarrow> Inl SignatureInvalid
          | Some pk \<Rightarrow>
              if pk = [] then Inl SignatureInvalid
              else (case keyFromPublic e pk of
                None \<Rightarrow> Inl SignatureInvalid
              | Some key \<Rightarrow>
                  (case verify e key hashToVerify sg of
                     None \<Rightarrow> Inl SignatureInvalid
                   | Some b \<Rightarrow> Inr b)))))"

definition verifyTransaction :: "env \<Rightarrow> transaction \<Rightarrow> error + unit" where
  "verifyTransaction e tx =
     (if hash tx \<noteq> calculateHash e tx then Inl HashMismatch else Inr ())"





section \<open>Block\<close>

record block =
  b_index :: nat
  b_previousHash :: "string option"
  b_timestamp :: nat
  b_transactions :: "transaction list"
  b_difficulty :: nat
  b_merkleRoot :: string
  b_nonce :: nat
  b_originTransactionHash :: "string option"
  b_hash :: string

definition calculateMerkleRoot :: "env \<Rightarrow> block \<Rightarrow> string" where
  "calculateMerkleRoot e b =
     (if length (b_transactions b) = 0 then replicate 64 CHR ''0''
      else getRootHash e (map hash (b_transactions b)))"

text \<open>
  \<open>calculateLastOriginTransactionHash\<close>. The test \<open>if (x.originTransactionHash)\<close> is
  truthiness. With a single transaction, index \<open>length - 2\<close> is \<open>-1\<close> and the read
  gives \<open>undefined\<close>, so the result is \<open>null\<close>.
\<close>

definition calculateLastOriginTransactionHash :: "block \<Rightarrow> string option" where
  "calculateLastOriginTransactionHash b =
     (let txs = b_transactions b in
      if length txs = 0 then None
      else
        let lastTransaction = txs ! (length txs - 1) in
        if truthy (originTransactionHash lastTransaction)
        then originTransactionHash lastTransaction
        else if length txs < 2 then None
        else originTransactionHash (txs ! (length txs - 2)))"

text \<open>\<open>x || ''\<close>\<close>

fun or_empty :: "string option \<Rightarrow> string" where
  "or_empty None = []"
| "or_empty (Some s) = s"

text \<open>
  \<open>Block.calculateHash\<close>. The source also serialises the transactions into a
  string that it never uses; only the concatenation below reaches SHA-256.
\<close>

definition Block_calculateHash :: "env \<Rightarrow> block \<Rightarrow> string" where
  "Block_calculateHash e b =
     sha256 e (or_empty (b_previousHash b) @ show_nat (b_timestamp b) @ b_merkleRoot b @
               show_nat (b_nonce b) @ or_empty (b_originTransactionHash b))"

definition Block_new ::
  "env \<Rightarrow> nat \<Rightarrow> string option \<Rightarrow> nat \<Rightarrow> transaction list \<Rightarrow> nat \<Rightarrow> block" where
  "Block_new e index previousHash ts txs diff =
     (let this = \<lparr>b_index = index, b_previousHash = previousHash, b_timestamp = ts,
                  b_transactions = txs, b_difficulty = diff, b_merkleRoot = [],
                  b_nonce = 0, b_originTransactionHash = None, b_hash = []\<rparr>;
          this = this\<lparr>b_merkleRoot := calculateMerkleRoot e this\<rparr>;
          this = this\<lparr>b_nonce := 0\<rparr>;
          this = this\<lparr>b_originTransactionHash := calculateLastOriginTransactionHash this\<rparr>
      in this\<lparr>b_hash := Block_calculateHash e this\<rparr>)"

text \<open>
  \<open>Block.fromJSON\<close>. The block data received from a peer has the fields of a block,
  so it is a \<open>block\<close> record too.
\<close>

definition Block_fromJSON :: "env \<Rightarrow> block \<Rightarrow> block" where
  "Block_fromJSON e d =
     (let previousHash =
            (if b_previousHash d = Some ''0'' \<or> b_previousHash d = Some [] \<or>
                b_previousHash d = Some ''null''
             then None else b_previousHash d);
          blk = Block_new e (b_index d) previousHash (b_timestamp d)
                  (map (Transaction_fromJSON e) (b_transactions d)) (b_difficulty d)
      in blk\<lparr>b_hash := b_hash d, b_nonce := b_nonce d, b_merkleRoot := b_merkleRoot d,
             b_originTransactionHash := b_originTransactionHash d\<rparr>)"

text \<open>
  \<open>hash.substring(0, d) !== Array(d + 1).join("0")\<close>: the first \<open>d\<close> characters of
  the hash (all of it when it is shorter) against \<open>d\<close> zeroes.
\<close>

definition meets_difficulty :: "nat \<Rightarrow> string \<Rightarrow> bool" where
  "meets_difficulty d h = (take d h = replicate d CHR ''0'')"

text \<open>
  \<open>mineBlock\<close> is a \<open>while\<close> loop with no bound: the result is \<open>None\<close> when it
  runs forever.
\<close>

partial_function (option) mineBlock :: "env \<Rightarrow> nat \<Rightarrow> block \<Rightarrow> block option" where
  "mineBlock e d b =
     (if \<not> meets_difficulty d (b_hash b)
      then (let b = b\<lparr>b_nonce := b_nonce b + 1\<rparr>
            in mineBlock e d (b\<lparr>b_hash := Block_calculateHash e b\<rparr>))
      else Some b)"

text \<open>
  \<open>hasValidTransactions\<close>: \<open>verifyTransaction\<close> throws on a hash mismatch, and
  \<open>isValid\<close> may throw; both exceptions leave the loop.
\<close>

fun hasValidTransactions_loop :: "env \<Rightarrow> transaction list \<Rightarrow> error + bool" where
  "hasValidTransactions_loop e [] = Inr True"
| "hasValidTransactions_loop e (tx # txs) =
     (case verifyTransaction e tx of
        Inl er \<Rightarrow> Inl er
      | Inr u \<Rightarrow>
          if fromAddress tx \<noteq> None
          then (case isValid e tx of
                  Inl er \<Rightarrow> Inl er
                | Inr ok \<Rightarrow> if \<not> ok then Inr False else hasValidTransactions_loop e txs)
          else hasValidTransactions_loop e txs)"

definition hasValidTransactions :: "env \<Rightarrow> block \<Rightarrow> error + bool" where
  "hasValidTransactions e b = hasValidTransactions_loop e (b_transactions b)"


section \<open>The store\<close>

text \<open>
  The database, as far as the chain reads and writes it here: the rows of \<open>blocks\<close>,
  \<open>transactions\<close> and \<open>pending_transactions\<close>, the last keyed by the hash given at
  the insert. A row holds the values at the time of the insert; the row of a block is
  its header. A query is rejected while the store is not \<open>available\<close>, and an insert
  of an amount that is \<open>NaN\<close> is rejected always: \<open>NaN\<close> is no value of a decimal
  column. The token, balance and Merkle tables that \<open>Block.save\<close> also writes are
  left out; nothing below reads them.
\<close>

record store =
  available :: bool
  blocks_table :: "block list"
  transactions_table :: "transaction list"
  pending_transactions_table :: "(string \<times> transaction) list"

text \<open>\<open>Transaction.save\<close>: \<open>isValid\<close> is called for its exception only.\<close>

definition Transaction_save :: "env \<Rightarrow> transaction \<Rightarrow> store \<Rightarrow> error + store" where
  "Transaction_save e tx db =
     (case isValid e tx of
        Inl er \<Rightarrow> Inl er
      | Inr ok \<Rightarrow>
          if \<not> available db \<or> amount tx = NaN then Inl StoreError
          else if list_ex (\<lambda>row. hash row = hash tx) (transactions_table db)
          then Inl DuplicateEntry
          else Inr (db\<lparr>transactions_table := transactions_table db @ [tx]\<rparr>))"


text \<open>Truthiness of the token properties: \<open>0\<close> and the empty string are falsy.\<close>

fun truthy_nat :: "nat slot \<Rightarrow> bool" where
  "truthy_nat (Val n) = (n \<noteq> 0)"
| "truthy_nat v = False"

fun truthy_string :: "string slot \<Rightarrow> bool" where
  "truthy_string (Val s) = (s \<noteq> [])"
| "truthy_string v = False"

definition isTokenCreation :: "transaction \<Rightarrow> bool" where
  "isTokenCreation tx =
     (truthy_nat (tokenId tx) \<and> truthy_string (tokenName tx) \<and>
      truthy_string (tokenSymbol tx) \<and> truthy_nat (tokenTotalSupply tx))"

text \<open>
  One of the two loops of \<open>Block.save\<close> over the transactions, the first over the
  token creations, the second over the others. The loop assigns \<open>blockHash\<close> and
  \<open>index_in_block\<close> on the transaction object itself and then saves it, so the
  transactions of the block come back changed: \<open>sel\<close> says which transactions the
  loop takes, the others are passed over. The first exception ends the loop; the rows
  written and the properties assigned so far stay.
\<close>

fun save_loop ::
  "env \<Rightarrow> string \<Rightarrow> (transaction \<Rightarrow> bool) \<Rightarrow> nat \<Rightarrow> transaction list \<Rightarrow> store \<Rightarrow>
   error option \<times> transaction list \<times> store" where
  "save_loop e h sel i [] db = (None, [], db)"
| "save_loop e h sel i (tx # txs) db =
     (if sel tx
      then
        (let tx = tx\<lparr>blockHash := Some h\<rparr>;
             tx = tx\<lparr>index_in_block := Some i\<rparr>
         in case Transaction_save e tx db of
              Inl er \<Rightarrow> (Some er, tx # txs, db)
            | Inr db' \<Rightarrow>
                (case save_loop e h sel (i + 1) txs db' of
                   (r, txs', db'') \<Rightarrow> (r, tx # txs', db'')))
      else
        (case save_loop e h sel i txs db of
           (r, txs', db'') \<Rightarrow> (r, tx # txs', db'')))"

text \<open>The header of a block, as its row in \<open>blocks\<close> has it.\<close>

definition block_row :: "block \<Rightarrow> block" where
  "block_row b = b\<lparr>b_transactions := []\<rparr>"

text \<open>
  \<open>Block.save\<close>: the block row first, then the token creations, then the other
  transactions, numbered on from the token creations. An exception with code
  \<open>ER_DUP_ENTRY\<close> is logged and swallowed, any other is rethrown. The result is the
  exception, the block with its transactions as \<open>save\<close> leaves them, and the store.
\<close>

definition Block_save :: "env \<Rightarrow> block \<Rightarrow> store \<Rightarrow> error option \<times> block \<times> store" where
  "Block_save e b db =
     (if \<not> available db then (Some StoreError, b, db)
      else if list_ex (\<lambda>row. b_hash row = b_hash b) (blocks_table db) then (None, b, db)
      else
        let db = db\<lparr>blocks_table := blocks_table db @ [block_row b]\<rparr>;
            tokenCreationTransactions = filter isTokenCreation (b_transactions b)
        in case save_loop e (b_hash b) isTokenCreation 0 (b_transactions b) db of
             (Some er, txs, db') \<Rightarrow>
               (if er = DuplicateEntry then None else Some er, b\<lparr>b_transactions := txs\<rparr>, db')
           | (None, txs, db') \<Rightarrow>
               (case save_loop e (b_hash b) (\<lambda>tx. \<not> isTokenCreation tx)
                       (length tokenCreationTransactions) txs db' of
                  (Some er, txs', db'') \<Rightarrow>
                    (if er = DuplicateEntry then None else Some er,
                     b\<lparr>b_transactions := txs'\<rparr>, db'')
                | (None, txs', db'') \<Rightarrow> (None, b\<lparr>b_transactions := txs'\<rparr>, db'')))"

definition clearPendingTransactions :: "store \<Rightarrow> error + store" where
  "clearPendingTransactions db =
     (if \<not> available db then Inl StoreError
      else Inr (db\<lparr>pending_transactions_table := []\<rparr>))"

definition clearMinedTransactions :: "transaction list \<Rightarrow> store \<Rightarrow> error + store" where
  "clearMinedTransactions minedTransactions db =
     (let transactionHashes = map hash minedTransactions in
      if length transactionHashes = 0 then Inr db
      else if \<not> available db then Inl StoreError
      else Inr (db\<lparr>pending_transactions_table :=
                     filter (\<lambda>row. fst row \<notin> set transactionHashes)
                            (pending_transactions_table db)\<rparr>))"

text \<open>\<open>clearLocalBlockchainData\<close>, for the tables kept here.\<close>

definition clearLocalBlockchainData :: "store \<Rightarrow> error + store" where
  "clearLocalBlockchainData db =
     (if \<not> available db then Inl StoreError
      else Inr (db\<lparr>transactions_table := [], pending_transactions_table := [],
                     blocks_table := []\<rparr>))"

section \<open>Blockchain\<close>

text \<open>What the node hands to the peer module for sending.\<close>

datatype message =
    NEW_TRANSACTION transaction
  | NEW_BLOCK block
  | FULL_CHAIN "block list"

text \<open>
  The singleton, with the store it writes to and the messages it has broadcast.
\<close>

record blockchain =
  chain :: "block list"
  difficulty :: nat
  pendingTransactions :: "transaction list"
  miningReward :: amount
  transactionPool :: "string set"
  isReplacingChain :: bool
  isSynchronized :: bool
  miningLock :: bool
  db :: store
  outbox :: "message list"

text \<open>
  The \<open>some\<close> of \<open>some\<close>: the hash of the transaction is the hash of a transaction
  of a block of the chain.
\<close>

definition in_chain :: "block list \<Rightarrow> transaction \<Rightarrow> bool" where
  "in_chain blocks tx =
     list_ex (\<lambda>block. list_ex (\<lambda>existingTx. hash existingTx = hash tx) (b_transactions block))
       blocks"

text \<open>
  The \<open>Map\<close> keyed by hash, filled by \<open>forEach\<close>: the first transaction with a hash
  is kept, in insertion order.
\<close>

fun uniqueTransactions :: "transaction list \<Rightarrow> transaction list \<Rightarrow> transaction list" where
  "uniqueTransactions m [] = m"
| "uniqueTransactions m (tx # txs) =
     uniqueTransactions (if list_ex (\<lambda>t. hash t = hash tx) m then m else m @ [tx]) txs"

text \<open>
  The transactions of a mined block, the reward apart, are the very objects of the
  mempool: what \<open>save\<close> assigns on them shows in the mempool too. A pending
  transaction is in the block when it passed the filter and is the first with its
  hash; these are, in order, the transactions \<open>us\<close> of the block. (The mempool is
  taken to hold each object once.)
\<close>

fun write_back ::
  "(transaction \<Rightarrow> bool) \<Rightarrow> string list \<Rightarrow> transaction list \<Rightarrow> transaction list \<Rightarrow>
   transaction list" where
  "write_back inChain seen us [] = []"
| "write_back inChain seen [] (tx # txs) = tx # txs"
| "write_back inChain seen (u # us) (tx # txs) =
     (if inChain tx \<or> hash tx \<in> set seen then tx # write_back inChain seen (u # us) txs
      else u # write_back inChain (hash tx # seen) us txs)"

text \<open>The reward transaction of a mined block; \<open>now\<close> is \<open>Date.now()\<close>.\<close>

definition rewardTransaction :: "env \<Rightarrow> string \<Rightarrow> amount \<Rightarrow> nat \<Rightarrow> transaction" where
  "rewardTransaction e miningRewardAddress reward now =
     (let rewardTx = Transaction_new e None miningRewardAddress reward now None (Some [])
                        None (Some []) None Undefined Undefined Undefined Undefined;
          rewardTx = rewardTx\<lparr>hash := calculateHash e rewardTx\<rparr>
      in rewardTx\<lparr>signature := None\<rparr>)"

text \<open>
  The body of the \<open>try\<close> of \<open>minePendingTransactions\<close> together with its
  \<open>catch\<close>, which logs the exception: an exception ends the body with the state as
  it is. On an empty chain \<open>getLatestBlock()\<close> is \<open>undefined\<close> and reading its hash
  throws. The block is appended to the chain before it is saved; \<open>save\<close> then works
  on the appended object and on the objects of the mempool. The result is \<open>None\<close>
  when the mining loop runs forever.
\<close>

definition mine_body ::
  "env \<Rightarrow> string option \<Rightarrow> nat \<Rightarrow> nat \<Rightarrow> blockchain \<Rightarrow> blockchain option" where
  "mine_body e miningRewardAddress now_tx now_block st =
     (if length (pendingTransactions st) = 0 then Some st
      else
        let filteredTransactions =
              filter (\<lambda>tx. \<not> in_chain (chain st) tx) (pendingTransactions st) in
        if length filteredTransactions = 0
        then (let st = st\<lparr>pendingTransactions := []\<rparr> in
              case clearPendingTransactions (db st) of
                Inl er \<Rightarrow> Some st
              | Inr db' \<Rightarrow> Some (st\<lparr>db := db'\<rparr>))
        else
          let uniqueTxs = uniqueTransactions [] filteredTransactions in
          if length uniqueTxs = 0
          then (let st = st\<lparr>pendingTransactions := []\<rparr> in
                case clearPendingTransactions (db st) of
                  Inl er \<Rightarrow> Some st
                | Inr db' \<Rightarrow> Some (st\<lparr>db := db'\<rparr>))
          else
            let blockTransactions =
                  (if truthy miningRewardAddress
                   then uniqueTxs @ [rewardTransaction e (or_empty miningRewardAddress)
                                       (miningReward st) now_tx]
                   else uniqueTxs) in
            if chain st = [] then Some st
            else
              let newBlock = Block_new e (length (chain st)) (Some (b_hash (last (chain st))))
                               now_block blockTransactions (difficulty st);
                  previousBlock = last (chain st);
                  expectedOriginTransactionHash =
                    calculateLastOriginTransactionHash previousBlock in
              if b_originTransactionHash previousBlock \<noteq> expectedOriginTransactionHash
              then Some st
              else
                (case mineBlock e (difficulty st) newBlock of
                   None \<Rightarrow> None
                 | Some newBlock \<Rightarrow>
                     let inChain = in_chain (chain st);
                         st = st\<lparr>chain := chain st @ [newBlock]\<rparr> in
                     (case Block_save e newBlock (db st) of
                        (r, newBlock, db') \<Rightarrow>
                          let st = st\<lparr>chain := (chain st)[length (chain st) - 1 := newBlock]\<rparr>;
                              st = st\<lparr>pendingTransactions :=
                                     write_back inChain []
                                       (take (length uniqueTxs) (b_transactions newBlock))
                                       (pendingTransactions st)\<rparr>;
                              st = st\<lparr>db := db'\<rparr>
                          in
                          if r \<noteq> None then Some st
                          else
                          (case clearMinedTransactions (b_transactions newBlock) (db st) of
                             Inl er \<Rightarrow> Some st
                           | Inr db'' \<Rightarrow>
                               let st = st\<lparr>db := db''\<rparr>;
                                   st = st\<lparr>transactionPool := transactionPool st -
                                          set (map hash (b_transactions newBlock))\<rparr>;
                                   st = st\<lparr>outbox := outbox st @ [NEW_BLOCK newBlock]\<rparr>
                               in Some (st\<lparr>pendingTransactions :=
                                     filter (\<lambda>tx. \<not> list_ex (\<lambda>newTx. hash newTx = hash tx)
                                                        (b_transactions newBlock))
                                       (pendingTransactions st)\<rparr>)))))"

text \<open>
  Modelled from the spec: \<open>lock.js\<close>, with \<open>acquireLock\<close> and \<open>releaseLock\<close>, is not
  among the sources. The spec describes a mutex that keeps the two timers from mining
  at once, released on every exit path: acquiring fails while the lock is held.
\<close>

definition minePendingTransactions ::
  "env \<Rightarrow> string option \<Rightarrow> nat \<Rightarrow> nat \<Rightarrow> blockchain \<Rightarrow> blockchain option" where
  "minePendingTransactions e miningRewardAddress now_tx now_block st =
     (if miningLock st then Some st
      else case mine_body e miningRewardAddress now_tx now_block (st\<lparr>miningLock := True\<rparr>) of
             None \<Rightarrow> None
           | Some st' \<Rightarrow> Some (st'\<lparr>miningLock := False\<rparr>))"

text \<open>
  \<open>addBlock\<close>: \<open>Inr b\<close> is the boolean it returns, \<open>Inl\<close> an exception that leaves
  it (from \<open>hasValidTransactions\<close>, or from the read of the latest block of an empty
  chain). The block is appended before it is saved, and \<open>save\<close> works on the
  appended object. The block comes from \<open>Block.fromJSON\<close>: its transactions are
  objects of their own, not those of the mempool.
\<close>

definition addBlock :: "env \<Rightarrow> block \<Rightarrow> blockchain \<Rightarrow> (error + bool) \<times> blockchain" where
  "addBlock e newBlock st =
     (if chain st = [] then (Inl TypeError, st)
      else
        let previousBlock = last (chain st) in
        if b_previousHash newBlock \<noteq> Some (b_hash previousBlock) then (Inr False, st)
        else
          (case hasValidTransactions e newBlock of
             Inl er \<Rightarrow> (Inl er, st)
           | Inr ok \<Rightarrow>
               if \<not> ok then (Inr False, st)
               else if b_hash newBlock \<noteq> Block_calculateHash e newBlock then (Inr False, st)
               else if \<not> meets_difficulty (difficulty st) (b_hash newBlock) then (Inr False, st)
               else
                 let st = st\<lparr>chain := chain st @ [newBlock]\<rparr> in
                 (case Block_save e newBlock (db st) of
                    (r, newBlock, db') \<Rightarrow>
                      let st = st\<lparr>chain := (chain st)[length (chain st) - 1 := newBlock]\<rparr>;
                          st = st\<lparr>db := db'\<rparr>
                      in
                      if r \<noteq> None then (Inr False, st)
                      else
                      (case clearMinedTransactions (b_transactions newBlock) (db st) of
                         Inl er \<Rightarrow> (Inr False, st)
                       | Inr db'' \<Rightarrow>
                           let st = st\<lparr>db := db''\<rparr>;
                               st = st\<lparr>pendingTransactions :=
                                      filter (\<lambda>tx. \<not> list_ex (\<lambda>newTx. hash newTx = hash tx)
                                                         (b_transactions newBlock))
                                        (pendingTransactions st)\<rparr>
                           in (Inr True, st\<lparr>outbox := outbox st @ [NEW_BLOCK newBlock]\<rparr>)))))"


definition calculateCumulativeDifficulty :: "block list \<Rightarrow> nat" where
  "calculateCumulativeDifficulty chainData =
     foldl (\<lambda>total block. total + b_difficulty block) 0 chainData"

text \<open>The loop of \<open>isValidChain\<close>, from the second block on.\<close>

fun isValidChain_loop :: "env \<Rightarrow> block \<Rightarrow> block list \<Rightarrow> error + bool" where
  "isValidChain_loop e previousBlock [] = Inr True"
| "isValidChain_loop e previousBlock (currentBlock # rest) =
     (if b_previousHash currentBlock \<noteq> Some (b_hash previousBlock) then Inr False
      else
        let tempBlock = Block_fromJSON e currentBlock in
        if b_hash currentBlock \<noteq> Block_calculateHash e tempBlock then Inr False
        else if \<not> meets_difficulty (b_difficulty currentBlock) (b_hash currentBlock)
        then Inr False
        else (case hasValidTransactions e tempBlock of
                Inl er \<Rightarrow> Inl er
              | Inr ok \<Rightarrow>
                  if \<not> ok then Inr False else isValidChain_loop e currentBlock rest))"

definition isValidChain :: "env \<Rightarrow> block list \<Rightarrow> error + bool" where
  "isValidChain e chainData =
     (case chainData of
        [] \<Rightarrow> Inr False
      | firstBlock # rest \<Rightarrow>
          if b_index firstBlock \<noteq> 0 then Inr False
          else if b_previousHash firstBlock \<noteq> None \<and> b_previousHash firstBlock \<noteq> Some ''0''
          then Inr False
          else isValidChain_loop e firstBlock rest)"

text \<open>
  The loop of \<open>replaceChain\<close> that saves and appends the received blocks, each as
  \<open>save\<close> leaves it. An exception of \<open>save\<close> ends it; the flag says whether the
  loop ran to its end.
\<close>

fun replace_loop :: "env \<Rightarrow> block list \<Rightarrow> blockchain \<Rightarrow> bool \<times> blockchain" where
  "replace_loop e [] st = (True, st)"
| "replace_loop e (blockData # rest) st =
     (let newBlock = Block_fromJSON e blockData in
      case Block_save e newBlock (db st) of
        (r, newBlock, db') \<Rightarrow>
          if r \<noteq> None then (False, st\<lparr>db := db'\<rparr>)
          else replace_loop e rest (st\<lparr>db := db', chain := chain st @ [newBlock]\<rparr>))"

text \<open>
  The body of the outer \<open>try\<close> of \<open>replaceChain\<close>. The inner \<open>catch\<close> logs the
  exceptions of the store; an exception of \<open>isValidChain\<close> leaves the function. The
  cumulative difficulty of the local chain is taken on the \<open>toJSON\<close> data of its
  blocks, which carry the difficulty of the blocks.
\<close>

definition replace_body :: "env \<Rightarrow> block list \<Rightarrow> blockchain \<Rightarrow> error option \<times> blockchain" where
  "replace_body e newChainData st =
     (if length newChainData \<le> length (chain st) then (None, st)
      else
        (case isValidChain e newChainData of
           Inl er \<Rightarrow> (Some er, st)
         | Inr valid \<Rightarrow>
             if \<not> valid then (None, st)
             else
               let localCumulativeDifficulty = calculateCumulativeDifficulty (chain st);
                   receivedCumulativeDifficulty = calculateCumulativeDifficulty newChainData
               in
               if receivedCumulativeDifficulty > localCumulativeDifficulty
               then (case clearLocalBlockchainData (db st) of
                       Inl er \<Rightarrow> (None, st)
                     | Inr db' \<Rightarrow>
                         let st = st\<lparr>db := db'\<rparr>;
                             st = st\<lparr>chain := []\<rparr>
                         in (case replace_loop e newChainData st of
                               (False, st') \<Rightarrow> (None, st')
                             | (True, st') \<Rightarrow>
                                 let st' = st'\<lparr>isSynchronized := True\<rparr> in
                                 (None, st'\<lparr>outbox := outbox st' @ [FULL_CHAIN (chain st')]\<rparr>)))
               else (None, st)))"

definition replaceChain :: "env \<Rightarrow> block list \<Rightarrow> blockchain \<Rightarrow> error option \<times> blockchain" where
  "replaceChain e newChainData st =
     (if isReplacingChain st then (None, st)
      else
        let st = st\<lparr>isReplacingChain := True\<rparr> in
        case replace_body e newChainData st of
          (r, st') \<Rightarrow> (r, st'\<lparr>isReplacingChain := False\<rparr>))"



section \<open>A small instance\<close>

text \<open>
  Stand-ins for the libraries, small enough to compute with: the digest of a string
  is its length behind a two-letter prefix, which is \<open>00\<close> when the string ends in
  \<open>3\<close>; the public key of a private key is the key behind \<open>04\<close>, and a signature is
  the public key and the digest behind \<open>30\<close>. The general statements below hold for
  every \<open>env\<close>; the instance only shows that their hypotheses can be met.
\<close>

definition toy_sha256 :: "string \<Rightarrow> string" where
  "toy_sha256 s =
     (if s \<noteq> [] \<and> last s = CHR ''3'' then ''00'' else ''ab'') @ show_nat (length s)"

definition toy :: env where
  "toy = \<lparr>sha256 = toy_sha256,
          keyFromPublic = (\<lambda>pk. if take 2 pk = ''04'' then Some pk else None),
          verify = (\<lambda>key h sg. if take 2 sg = ''30'' then Some (sg = ''30'' @ key @ h) else None),
          getPublic = (\<lambda>priv. ''04'' @ priv),
          sign = (\<lambda>priv h. Some (''30'' @ ''04'' @ priv @ h)),
          getRootHash = (\<lambda>hs. toy_sha256 (concat hs))\<rparr>"

definition toy_wallets :: "string \<rightharpoonup> string" where
  "toy_wallets = [''alice'' \<mapsto> ''k'']"

text \<open>A transfer as the command line builds it, before it is signed.\<close>

definition alice_tx :: transaction where
  "alice_tx = Transaction_new toy (Some ''alice'') ''bob'' (Dec 1000000000) 7 None (Some [])
                None (Some []) None Undefined Undefined Undefined Undefined"

text \<open>The same transfer with its hash recomputed, then signed with the key \<open>k\<close>.\<close>

definition alice_ready :: transaction where
  "alice_ready = alice_tx\<lparr>hash := calculateHash toy alice_tx\<rparr>"

definition alice_signed :: transaction where
  "alice_signed =
     alice_ready\<lparr>signature := Some ''3004kab182'', publicKey := Some ''04k''\<rparr>"


text \<open>A transfer whose origin hash is the empty string, and a reward.\<close>

definition empty_origin_tx :: transaction where
  "empty_origin_tx = alice_ready\<lparr>originTransactionHash := Some []\<rparr>"

definition reward_tx :: transaction where
  "reward_tx = rewardTransaction toy ''miner1'' (Dec 10000000000) 8"

text \<open>A transfer that points at an earlier one.\<close>

definition linked_tx :: transaction where
  "linked_tx = alice_ready\<lparr>originTransactionHash := Some ''ab182''\<rparr>"

definition block_of :: "transaction list \<Rightarrow> block" where
  "block_of txs = Block_new toy 1 (Some ''00prev'') 5 txs 2"

text \<open>
  A node with a mined genesis block in memory and in its store, and a second block
  with the signed transfer and a reward that fits on top of it.
\<close>

definition genesis_reward :: transaction where
  "genesis_reward = Transaction_new toy None ''genesis'' (Dec 100000000000000) 1 None (Some [])
                      None (Some []) None Undefined Undefined Undefined Undefined"

definition genesis :: block where
  "genesis = (Block_new toy 0 None 1 [genesis_reward] 2)\<lparr>b_nonce := 3, b_hash := ''005''\<rparr>"

definition block1_unmined :: block where
  "block1_unmined = Block_new toy 1 (Some ''005'') 9 [alice_signed, reward_tx] 2"

definition block1 :: block where
  "block1 = block1_unmined\<lparr>b_nonce := 3, b_hash := ''009''\<rparr>"

definition store0 :: store where
  "store0 = \<lparr>available = True, blocks_table = [block_row genesis],
             transactions_table =
               [genesis_reward\<lparr>blockHash := Some ''005'', index_in_block := Some 0\<rparr>],
             pending_transactions_table = []\<rparr>"

definition node0 :: blockchain where
  "node0 = \<lparr>chain = [genesis], difficulty = 2, pendingTransactions = [],
            miningReward = Dec 10000000000, transactionPool = {}, isReplacingChain = False,
            isSynchronized = True, miningLock = False, db = store0, outbox = []\<rparr>"

text \<open>
  The same node with a store that rejects every query, without and with a pending
  transfer; three transactions of amount zero, \<open>NaN\<close> and negative; and the node
  with a mempool whose only transaction is already in the chain, while its
  \<open>pending_transactions\<close> table holds one row more.
\<close>

definition node_down :: blockchain where
  "node_down = node0\<lparr>db := store0\<lparr>available := False\<rparr>\<rparr>"

definition node_pending_down :: blockchain where
  "node_pending_down =
     node_down\<lparr>pendingTransactions := [alice_signed], transactionPool := {''ab182''}\<rparr>"




definition node_stale :: blockchain where
  "node_stale =
     node0\<lparr>pendingTransactions := [genesis_reward],
           db := store0\<lparr>pending_transactions_table :=
                   [(calculateHash toy genesis_reward, genesis_reward),
                    (''ab182'', alice_signed)]\<rparr>\<rparr>"

text \<open>
  The two blocks as \<open>Block.save\<close> leaves them, their transactions marked with the hash
  of the block and their position; the node with the signed transfer pending and a
  store that answers; and the transfer of \<open>alice\<close> constructed with token arguments.
\<close>

definition genesis_saved :: block where
  "genesis_saved =
     genesis\<lparr>b_transactions :=
       [genesis_reward\<lparr>blockHash := Some ''005'', index_in_block := Some 0\<rparr>]\<rparr>"

definition block1_saved :: block where
  "block1_saved =
     block1\<lparr>b_transactions :=
       [alice_signed\<lparr>blockHash := Some ''009'', index_in_block := Some 0\<rparr>,
        reward_tx\<lparr>blockHash := Some ''009'', index_in_block := Some 1\<rparr>]\<rparr>"

definition node_pending :: blockchain where
  "node_pending =
     node0\<lparr>pendingTransactions := [alice_signed], transactionPool := {''ab182''},
           db := store0\<lparr>pending_transactions_table := [(''ab182'', alice_signed)]\<rparr>\<rparr>"



section \<open>Transactions\<close>

lemma calculateHash_cong:
  "fromAddress a = fromAddress b \<Longrightarrow> toAddress a = toAddress b \<Longrightarrow> amount a = amount b \<Longrightarrow>
   tokenId a = tokenId b \<Longrightarrow> tokenName a = tokenName b \<Longrightarrow> tokenSymbol a = tokenSymbol b \<Longrightarrow>
   tokenTotalSupply a = tokenTotalSupply b \<Longrightarrow>
   originTransactionHash a = originTransactionHash b \<Longrightarrow> timestamp a = timestamp b \<Longrightarrow>
   calculateHash e a = calculateHash e b"
  by (simp add: calculateHash_def hash_data_def)

lemma calculateHash_signature_publicKey:
  "calculateHash e (tx\<lparr>signature := sg, publicKey := pk\<rparr>) = calculateHash e tx"
  by (rule calculateHash_cong) simp_all

lemma signWithKeyPair_hash:
  "signWithKeyPair e keyPair tx = Inr tx' \<Longrightarrow> hash tx' = calculateHash e tx"
  by (auto simp: signWithKeyPair_def Let_def calculateHash_signature_publicKey
           split: option.splits)

lemma signWithAddress_hash:
  "signWithAddress e wallets address tx = Inr tx' \<Longrightarrow> hash tx' = calculateHash e tx"
  by (auto simp: signWithAddress_def Let_def calculateHash_signature_publicKey
           split: option.splits)

text \<open>
  Claim C4. For a transaction whose stored hash is its recomputed canonical hash,
  signing with a key pair or with the wallet of an address leaves the hash unchanged:
  the hash depends on the sender, the recipient, the amount, the token properties,
  the origin hash and the timestamp only, so setting the signature and the public key
  and recomputing gives the same value.
\<close>

theorem hash_invariant_under_sign:
  assumes "hash tx = calculateHash e tx"
  shows "(signWithKeyPair e keyPair tx = Inr tx' \<longrightarrow> hash tx' = hash tx) \<and>
         (signWithAddress e wallets address tx = Inr tx'' \<longrightarrow> hash tx'' = hash tx) \<and>
         calculateHash e (tx\<lparr>signature := sg, publicKey := pk\<rparr>) = hash tx"
proof (intro conjI impI)
  assume "signWithKeyPair e keyPair tx = Inr tx'"
  then show "hash tx' = hash tx"
    using assms by (simp add: signWithKeyPair_hash)
next
  assume "signWithAddress e wallets address tx = Inr tx''"
  then show "hash tx'' = hash tx"
    using assms by (simp add: signWithAddress_hash)
next
  have "calculateHash e (tx\<lparr>signature := sg, publicKey := pk\<rparr>) = calculateHash e tx"
    by (rule calculateHash_signature_publicKey)
  with assms show "calculateHash e (tx\<lparr>signature := sg, publicKey := pk\<rparr>) = hash tx"
    by simp
qed


lemma isValid_reward: "fromAddress tx = None \<Longrightarrow> isValid e tx = Inr True"
  by (simp add: isValid_def)

lemma isValid_marked:
  "isValid e (tx\<lparr>blockHash := bh, index_in_block := i\<rparr>) = isValid e tx"
  by (simp add: isValid_def calculateHash_def hash_data_def split: option.splits)








section \<open>Blocks\<close>

text \<open>
  Claim C7. With difficulty 0 the test of the loop fails at once, for every hash:
  \<open>mineBlock\<close> returns the block as it is, nonce included.
\<close>

theorem mineBlock_zero_difficulty: "mineBlock e 0 b = Some b"
  by (subst mineBlock.simps) (simp add: meets_difficulty_def)

lemma mineBlock_changes:
  "mineBlock e d b = Some b' \<Longrightarrow> b' = b\<lparr>b_nonce := b_nonce b', b_hash := b_hash b'\<rparr>"
proof (rule mineBlock.raw_induct
    [where P = "\<lambda>e d b b'. b' = b\<lparr>b_nonce := b_nonce b', b_hash := b_hash b'\<rparr>"
       and e = e and d = d and b = b and y = b'])
  fix f e d b b'
  assume IH: "\<And>e d b b'. f e d b = Some b' \<Longrightarrow>
                 b' = b\<lparr>b_nonce := b_nonce b', b_hash := b_hash b'\<rparr>"
    and step: "(if \<not> meets_difficulty d (b_hash b)
                then let b = b\<lparr>b_nonce := b_nonce b + 1\<rparr>
                     in f e d (b\<lparr>b_hash := Block_calculateHash e b\<rparr>)
                else Some b) = Some b'"
  show "b' = b\<lparr>b_nonce := b_nonce b', b_hash := b_hash b'\<rparr>"
  proof (cases "meets_difficulty d (b_hash b)")
    case True
    with step show ?thesis by simp
  next
    case False
    with step have "f e d (b\<lparr>b_nonce := b_nonce b + 1,
        b_hash := Block_calculateHash e (b\<lparr>b_nonce := b_nonce b + 1\<rparr>)\<rparr>) = Some b'"
      by (simp add: Let_def)
    from IH[OF this] show ?thesis
      by (cases b, cases b') simp
  qed
qed

text \<open>
  Claim C10. When \<open>mineBlock\<close> returns, the index, the previous hash, the timestamp,
  the transactions, the difficulty, the Merkle root and the origin hash of the block
  are those it had before; only the nonce and the hash may differ.
\<close>

theorem mineBlock_frame:
  assumes "mineBlock e d b = Some b'"
  shows "b_index b' = b_index b \<and> b_previousHash b' = b_previousHash b \<and>
         b_timestamp b' = b_timestamp b \<and> b_transactions b' = b_transactions b \<and>
         b_difficulty b' = b_difficulty b \<and> b_merkleRoot b' = b_merkleRoot b \<and>
         b_originTransactionHash b' = b_originTransactionHash b"
proof -
  from mineBlock_changes[OF assms]
  have "b' = b\<lparr>b_nonce := b_nonce b', b_hash := b_hash b'\<rparr>" .
  then show ?thesis by (cases b, cases b') simp
qed

text \<open>
  Claim C6, as the code has it. The origin hash of a block is that of its last
  transaction when it is truthy (neither \<open>null\<close> nor empty); otherwise, with two
  transactions or more, that of the transaction before the last whatever it holds;
  and \<open>null\<close> with no transaction, or with one whose origin hash is not truthy.
\<close>

theorem calculateLastOriginTransactionHash_cases:
  "(b_transactions b = [] \<longrightarrow> calculateLastOriginTransactionHash b = None) \<and>
   (b_transactions b = [t] \<longrightarrow>
      calculateLastOriginTransactionHash b =
        (if truthy (originTransactionHash t) then originTransactionHash t else None)) \<and>
   (b_transactions b = pre @ [t2, t] \<longrightarrow>
      calculateLastOriginTransactionHash b =
        (if truthy (originTransactionHash t) then originTransactionHash t
         else originTransactionHash t2))"
  by (auto simp: calculateLastOriginTransactionHash_def Let_def nth_append)

section \<open>The chain\<close>

lemma replace_body_unchanged:
  assumes "length newChainData \<le> length (chain st) \<or>
           \<not> calculateCumulativeDifficulty (chain st) < calculateCumulativeDifficulty newChainData"
  shows "snd (replace_body e newChainData st) = st"
  using assms by (auto simp: replace_body_def Let_def split: sum.splits)

lemma replace_body_changed:
  assumes "snd (replace_body e newChainData st) \<noteq> st"
  shows "length (chain st) < length newChainData \<and> isValidChain e newChainData = Inr True \<and>
         calculateCumulativeDifficulty (chain st) < calculateCumulativeDifficulty newChainData"
  using assms by (auto simp: replace_body_def Let_def split: sum.splits if_splits)

lemma replaceChain_snd:
  "snd (replaceChain e newChainData st) =
     (if isReplacingChain st then st
      else (snd (replace_body e newChainData (st\<lparr>isReplacingChain := True\<rparr>)))
             \<lparr>isReplacingChain := False\<rparr>)"
  by (simp add: replaceChain_def Let_def split: prod.splits)

lemma flag_round_trip:
  "\<not> isReplacingChain st \<Longrightarrow> st\<lparr>isReplacingChain := True\<rparr>\<lparr>isReplacingChain := False\<rparr> = st"
  by (cases st) simp

text \<open>
  Claim C3. When the received chain is not longer than the local one, or its
  cumulative difficulty is not strictly greater, \<open>replaceChain\<close> leaves the whole state
  as it was (the only other outcome being an exception of the validation, with the
  state unchanged too). Whenever the state does change, the received chain is
  strictly longer, valid, and of strictly greater cumulative difficulty.
\<close>

theorem replaceChain_only_longer_and_heavier:
  "(length newChainData \<le> length (chain st) \<or>
    \<not> calculateCumulativeDifficulty (chain st) < calculateCumulativeDifficulty newChainData
      \<longrightarrow> replaceChain e newChainData st = (None, st) \<or>
          (\<exists>er. isValidChain e newChainData = Inl er \<and>
                replaceChain e newChainData st = (Some er, st))) \<and>
   (snd (replaceChain e newChainData st) \<noteq> st \<longrightarrow>
      length (chain st) < length newChainData \<and> isValidChain e newChainData = Inr True \<and>
      calculateCumulativeDifficulty (chain st) < calculateCumulativeDifficulty newChainData)"
proof (rule conjI; rule impI)
  assume a: "length newChainData \<le> length (chain st) \<or>
    \<not> calculateCumulativeDifficulty (chain st) < calculateCumulativeDifficulty newChainData"
  show "replaceChain e newChainData st = (None, st) \<or>
          (\<exists>er. isValidChain e newChainData = Inl er \<and>
                replaceChain e newChainData st = (Some er, st))"
  proof (cases "isReplacingChain st")
    case True
    then show ?thesis by (simp add: replaceChain_def)
  next
    case False
    let ?st = "st\<lparr>isReplacingChain := True\<rparr>"
    from a have b: "length newChainData \<le> length (chain ?st) \<or>
      \<not> calculateCumulativeDifficulty (chain ?st) < calculateCumulativeDifficulty newChainData"
      by simp
    have "replace_body e newChainData ?st = (None, ?st) \<or>
          (\<exists>er. isValidChain e newChainData = Inl er \<and>
             replace_body e newChainData ?st = (Some er, ?st))"
      using b by (auto simp: replace_body_def Let_def split: sum.splits)
    with False show ?thesis
      by (auto simp: replaceChain_def Let_def flag_round_trip)
  qed
next
  assume c: "snd (replaceChain e newChainData st) \<noteq> st"
  show "length (chain st) < length newChainData \<and> isValidChain e newChainData = Inr True \<and>
      calculateCumulativeDifficulty (chain st) < calculateCumulativeDifficulty newChainData"
  proof (cases "isReplacingChain st")
    case True
    with c show ?thesis by (simp add: replaceChain_snd)
  next
    case False
    let ?st = "st\<lparr>isReplacingChain := True\<rparr>"
    have "snd (replace_body e newChainData ?st) \<noteq> ?st"
    proof
      assume "snd (replace_body e newChainData ?st) = ?st"
      with False have "snd (replaceChain e newChainData st) = st"
        by (simp add: replaceChain_snd flag_round_trip)
      with c show False by simp
    qed
    from replace_body_changed[OF this] show ?thesis by simp
  qed
qed






lemma mine_body_all_mined:
  assumes "pendingTransactions st \<noteq> []"
    and "\<forall>tx \<in> set (pendingTransactions st). in_chain (chain st) tx"
  shows "mine_body e miningRewardAddress now_tx now_block st =
           Some (st\<lparr>pendingTransactions := [],
                      db := (if available (db st)
                             then (db st)\<lparr>pending_transactions_table := []\<rparr>
                             else db st)\<rparr>)"
proof -
  from assms(2) have "filter (\<lambda>tx. \<not> in_chain (chain st) tx) (pendingTransactions st) = []"
    by (simp add: filter_empty_conv)
  with assms(1) show ?thesis
    by (cases st) (simp add: mine_body_def Let_def clearPendingTransactions_def)
qed

text \<open>
  Claim C9. When the lock is free, the store answers, the mempool is not empty and
  the hash of every pending transaction is that of a transaction of some block of
  the chain, \<open>minePendingTransactions\<close> appends no block and sends nothing: it
  empties the mempool and deletes every row of \<open>pending_transactions\<close>, those of
  transactions that are not in memory included.
\<close>

theorem minePendingTransactions_all_mined:
  assumes "\<not> miningLock st" and "available (db st)"
    and "pendingTransactions st \<noteq> []"
    and "\<forall>tx \<in> set (pendingTransactions st). in_chain (chain st) tx"
  shows "minePendingTransactions e miningRewardAddress now_tx now_block st =
           Some (st\<lparr>pendingTransactions := [],
                      db := (db st)\<lparr>pending_transactions_table := []\<rparr>\<rparr>)"
proof -
  let ?st = "st\<lparr>miningLock := True\<rparr>"
  have "mine_body e miningRewardAddress now_tx now_block ?st =
          Some (?st\<lparr>pendingTransactions := [],
                     db := (db ?st)\<lparr>pending_transactions_table := []\<rparr>\<rparr>)"
    using assms mine_body_all_mined[of ?st e miningRewardAddress now_tx now_block] by simp
  with assms(1) show ?thesis
    by (cases st) (simp add: minePendingTransactions_def)
qed

text \<open>
  A rejection by one of the four checks of \<open>addBlock\<close>, or an exception of the
  validation, leaves the state as it was.
\<close>

lemma addBlock_check_failure_unchanged:
  assumes "b_previousHash newBlock \<noteq> Some (b_hash (last (chain st))) \<or>
           hasValidTransactions e newBlock \<noteq> Inr True \<or>
           b_hash newBlock \<noteq> Block_calculateHash e newBlock \<or>
           \<not> meets_difficulty (difficulty st) (b_hash newBlock)"
  shows "snd (addBlock e newBlock st) = st"
  using assms by (auto simp: addBlock_def Let_def split: sum.splits)

text \<open>
  What \<open>addBlock\<close> does when the store rejects the save of a block that passed the
  checks.
\<close>

lemma addBlock_store_error:
  assumes "chain st \<noteq> []" "b_previousHash newBlock = Some (b_hash (last (chain st)))"
    and "hasValidTransactions e newBlock = Inr True"
    and "b_hash newBlock = Block_calculateHash e newBlock"
    and "meets_difficulty (difficulty st) (b_hash newBlock)"
    and "\<not> available (db st)"
  shows "addBlock e newBlock st = (Inr False, st\<lparr>chain := chain st @ [newBlock]\<rparr>)"
  using assms by (cases st) (simp add: addBlock_def Let_def Block_save_def)

section \<open>Evaluation of the instance\<close>

lemma replicate_numeral: "replicate (numeral k) x = x # replicate (pred_numeral k) x"
  by (simp add: numeral_eq_Suc)

lemmas toy_simps = toy_def toy_sha256_def replicate_numeral digit_char_def pad8_def quote_def
  JSON_stringify_def hash_data_def calculateHash_def Transaction_new_def Let_def

lemma alice_tx_eq:
  "alice_tx =
     \<lparr>fromAddress = Some ''alice'', toAddress = ''bob'', amount = Dec 1000000000,
      timestamp = 7, signature = None, blockHash = Some [], originTransactionHash = None,
      publicKey = Some [], hash = ''ab107'', index_in_block = None, tokenId = Null,
      tokenName = Null, tokenSymbol = Null, tokenTotalSupply = Null\<rparr>"
  by (simp add: alice_tx_def toy_simps)

lemma alice_ready_eq:
  "alice_ready =
     \<lparr>fromAddress = Some ''alice'', toAddress = ''bob'', amount = Dec 1000000000,
      timestamp = 7, signature = None, blockHash = Some [], originTransactionHash = None,
      publicKey = Some [], hash = ''ab182'', index_in_block = None, tokenId = Null,
      tokenName = Null, tokenSymbol = Null, tokenTotalSupply = Null\<rparr>"
  by (simp add: alice_ready_def alice_tx_eq toy_simps)

lemma alice_signed_eq:
  "alice_signed =
     \<lparr>fromAddress = Some ''alice'', toAddress = ''bob'', amount = Dec 1000000000,
      timestamp = 7, signature = Some ''3004kab182'', blockHash = Some [],
      originTransactionHash = None, publicKey = Some ''04k'', hash = ''ab182'',
      index_in_block = None, tokenId = Null, tokenName = Null, tokenSymbol = Null,
      tokenTotalSupply = Null\<rparr>"
  by (simp add: alice_signed_def alice_ready_eq)

lemma calculateHash_alice_ready: "calculateHash toy alice_ready = ''ab182''"
  by (simp add: alice_ready_eq toy_simps)

lemma calculateHash_alice_signed: "calculateHash toy alice_signed = ''ab182''"
  by (simp add: alice_signed_eq toy_simps)


lemma sign_alice_ready: "signWithKeyPair toy ''k'' alice_ready = Inr alice_signed"
  by (simp add: signWithKeyPair_def alice_signed_eq alice_ready_eq toy_simps)

lemma sign_address_alice_ready:
  "signWithAddress toy toy_wallets ''alice'' alice_ready = Inr alice_signed"
  by (simp add: signWithAddress_def toy_wallets_def alice_signed_eq alice_ready_eq toy_simps)


lemma isValid_alice_signed: "isValid toy alice_signed = Inr True"
  unfolding isValid_def Let_def calculateHash_alice_signed
  by (simp add: alice_signed_eq toy_def)



text \<open>
  A transaction fresh from the constructor does not carry its canonical hash: the
  serialisation leaves the unassigned token properties out, and writes them as
  \<open>null\<close> once they are assigned.
\<close>

lemma constructed_hash_not_canonical:
  "hash alice_tx = ''ab107'' \<and> calculateHash toy alice_tx = ''ab182'' \<and>
   verifyTransaction toy alice_tx = Inl HashMismatch"
proof -
  have c: "calculateHash toy alice_tx = ''ab182''"
    by (simp add: alice_tx_eq toy_simps)
  have h: "hash alice_tx = ''ab107''"
    by (simp add: alice_tx_eq)
  show ?thesis
    unfolding verifyTransaction_def c h by simp
qed

lemma reward_tx_eq:
  "reward_tx =
     \<lparr>fromAddress = None, toAddress = ''miner1'', amount = Dec 10000000000, timestamp = 8,
      signature = None, blockHash = Some [], originTransactionHash = None,
      publicKey = Some [], hash = ''ab183'', index_in_block = None, tokenId = Null,
      tokenName = Null, tokenSymbol = Null, tokenTotalSupply = Null\<rparr>"
  by (simp add: reward_tx_def rewardTransaction_def toy_simps)

lemma genesis_reward_eq:
  "genesis_reward =
     \<lparr>fromAddress = None, toAddress = ''genesis'', amount = Dec 100000000000000,
      timestamp = 1, signature = None, blockHash = Some [], originTransactionHash = None,
      publicKey = Some [], hash = ''ab113'', index_in_block = None, tokenId = Null,
      tokenName = Null, tokenSymbol = Null, tokenTotalSupply = Null\<rparr>"
  by (simp add: genesis_reward_def toy_simps)

lemma calculateHash_reward_tx: "calculateHash toy reward_tx = ''ab183''"
  by (simp add: reward_tx_eq toy_simps)

lemma hash_instances:
  "hash alice_signed = ''ab182''" "hash reward_tx = ''ab183''" "hash genesis_reward = ''ab113''"
  "hash alice_ready = ''ab182''"
  by (simp_all add: alice_signed_eq reward_tx_eq genesis_reward_eq alice_ready_eq)

lemma origin_instances:
  "originTransactionHash empty_origin_tx = Some []"
  "originTransactionHash reward_tx = None"
  "originTransactionHash linked_tx = Some ''ab182''"
  by (simp_all add: empty_origin_tx_def reward_tx_def linked_tx_def rewardTransaction_def
      Transaction_new_def Let_def)

lemma more_origin_instances:
  "originTransactionHash alice_signed = None" "originTransactionHash genesis_reward = None"
  by (simp_all add: alice_signed_eq genesis_reward_eq)

lemma isValid_reward_tx: "isValid toy reward_tx = Inr True"
  by (simp add: isValid_def reward_tx_eq)

lemma isValid_genesis_reward: "isValid toy genesis_reward = Inr True"
  by (simp add: isValid_reward genesis_reward_eq)

lemma isTokenCreation_instances:
  "\<not> isTokenCreation alice_signed" "\<not> isTokenCreation reward_tx"
  "\<not> isTokenCreation genesis_reward"
  by (simp_all add: isTokenCreation_def alice_signed_eq reward_tx_eq genesis_reward_eq)

lemmas block_simps = Block_new_def Let_def calculateMerkleRoot_def
  calculateLastOriginTransactionHash_def Block_calculateHash_def toy_def toy_sha256_def
  digit_char_def

lemma transactions_block_of: "b_transactions (block_of txs) = txs"
  by (simp add: block_of_def Block_new_def Let_def)

lemma block_of_alice_eq:
  "block_of [alice_ready] =
     \<lparr>b_index = 1, b_previousHash = Some ''00prev'', b_timestamp = 5,
      b_transactions = [alice_ready], b_difficulty = 2, b_merkleRoot = ''ab5'', b_nonce = 0,
      b_originTransactionHash = None, b_hash = ''ab11''\<rparr>"
proof -
  have h: "hash alice_ready = ''ab182''" "originTransactionHash alice_ready = None"
    by (simp_all add: alice_ready_eq)
  show ?thesis
    by (simp add: block_of_def Block_new_def Let_def calculateMerkleRoot_def
      calculateLastOriginTransactionHash_def Block_calculateHash_def toy_def toy_sha256_def
      digit_char_def h)
qed

lemma mineBlock_block_of_alice:
  "mineBlock toy 2 (block_of [alice_ready]) =
     Some ((block_of [alice_ready])\<lparr>b_nonce := 3, b_hash := ''0011''\<rparr>)"
  by (simp add: block_of_alice_eq mineBlock.simps meets_difficulty_def Block_calculateHash_def
      Let_def toy_def toy_sha256_def digit_char_def replicate_numeral)

lemma genesis_eq:
  "genesis =
     \<lparr>b_index = 0, b_previousHash = None, b_timestamp = 1, b_transactions = [genesis_reward],
      b_difficulty = 2, b_merkleRoot = ''005'', b_nonce = 3, b_originTransactionHash = None,
      b_hash = ''005''\<rparr>"
  by (simp add: genesis_def block_simps hash_instances more_origin_instances)

lemma block1_unmined_eq:
  "block1_unmined =
     \<lparr>b_index = 1, b_previousHash = Some ''005'', b_timestamp = 9,
      b_transactions = [alice_signed, reward_tx], b_difficulty = 2, b_merkleRoot = ''0010'',
      b_nonce = 0, b_originTransactionHash = None, b_hash = ''ab9''\<rparr>"
  by (simp add: block1_unmined_def block_simps hash_instances more_origin_instances origin_instances)

lemma mine_block1: "mineBlock toy 2 block1_unmined = Some block1"
  by (simp add: block1_def block1_unmined_eq mineBlock.simps meets_difficulty_def
      Block_calculateHash_def Let_def toy_def toy_sha256_def digit_char_def replicate_numeral)

lemma block1_eq:
  "block1 =
     \<lparr>b_index = 1, b_previousHash = Some ''005'', b_timestamp = 9,
      b_transactions = [alice_signed, reward_tx], b_difficulty = 2, b_merkleRoot = ''0010'',
      b_nonce = 3, b_originTransactionHash = None, b_hash = ''009''\<rparr>"
  by (simp add: block1_def block1_unmined_eq)

lemma block_fields:
  "b_hash genesis = ''005''" "b_hash block1 = ''009''"
  "b_transactions genesis = [genesis_reward]" "b_transactions block1 = [alice_signed, reward_tx]"
  "b_previousHash block1 = Some ''005''" "b_originTransactionHash genesis = None"
  by (simp_all add: genesis_eq block1_eq)

lemma Block_calculateHash_block1: "Block_calculateHash toy block1 = ''009''"
  by (simp add: block1_eq Block_calculateHash_def toy_def toy_sha256_def digit_char_def)

lemma hasValidTransactions_block1: "hasValidTransactions toy block1 = Inr True"
proof -
  have "fromAddress alice_signed \<noteq> None" "fromAddress reward_tx = None"
    by (simp_all add: alice_signed_eq reward_tx_eq)
  then show ?thesis
    by (simp add: hasValidTransactions_def block1_eq verifyTransaction_def hash_instances
        calculateHash_alice_signed calculateHash_reward_tx isValid_alice_signed)
qed

lemma Transaction_fromJSON_instances:
  "Transaction_fromJSON toy alice_signed = alice_signed"
  "Transaction_fromJSON toy reward_tx = reward_tx"
  "Transaction_fromJSON toy genesis_reward = genesis_reward"
  by (simp_all add: Transaction_fromJSON_def Transaction_new_def Let_def alice_signed_eq
      reward_tx_eq genesis_reward_eq)

lemma Block_fromJSON_block1: "Block_fromJSON toy block1 = block1"
  by (simp add: Block_fromJSON_def Block_new_def Let_def block1_eq
      Transaction_fromJSON_instances)

lemma Block_fromJSON_genesis: "Block_fromJSON toy genesis = genesis"
  by (simp add: Block_fromJSON_def Block_new_def Let_def genesis_eq
      Transaction_fromJSON_instances)

lemma isValidChain_instance: "isValidChain toy [genesis, block1] = Inr True"
proof -
  have "b_index genesis = 0" "b_previousHash genesis = None" "b_hash genesis = ''005''"
    by (simp_all add: genesis_eq)
  moreover have "b_previousHash block1 = Some ''005''" "b_hash block1 = ''009''"
    "b_difficulty block1 = 2"
    by (simp_all add: block1_eq)
  ultimately show ?thesis
    by (simp add: isValidChain_def Block_fromJSON_block1 Block_calculateHash_block1
        hasValidTransactions_block1 meets_difficulty_def replicate_numeral)
qed

lemma cumulative_instances:
  "calculateCumulativeDifficulty [genesis] = 2"
  "calculateCumulativeDifficulty [genesis, block1] = 4"
  by (simp_all add: calculateCumulativeDifficulty_def genesis_eq block1_eq)

lemma in_chain_genesis_reward: "in_chain [genesis] genesis_reward"
  by (simp add: in_chain_def genesis_eq)

lemma node0_fields:
  "chain node0 = [genesis]" "difficulty node0 = 2" "pendingTransactions node0 = []"
  "transactionPool node0 = {}" "\<not> isReplacingChain node0" "\<not> miningLock node0"
  "db node0 = store0" "outbox node0 = []" "miningReward node0 = Dec 10000000000"
  by (simp_all add: node0_def)

lemma store0_fields:
  "available store0" "pending_transactions_table store0 = []"
  "blocks_table store0 = [block_row genesis]"
  by (simp_all add: store0_def)

lemma amount_instances:
  "amount alice_signed \<noteq> NaN" "amount reward_tx \<noteq> NaN" "amount genesis_reward \<noteq> NaN"
  by (simp_all add: alice_signed_eq reward_tx_eq genesis_reward_eq)




lemma node_down_fields:
  "chain node_down = [genesis]" "difficulty node_down = 2" "\<not> available (db node_down)"
  by (simp_all add: node_down_def node0_def store0_def)

lemma Block_save_genesis:
  "Block_save toy genesis (store0\<lparr>transactions_table := [], pending_transactions_table := [],
                                   blocks_table := []\<rparr>) =
     (None, genesis_saved,
      store0\<lparr>transactions_table :=
                [genesis_reward\<lparr>blockHash := Some ''005'', index_in_block := Some 0\<rparr>],
              pending_transactions_table := [], blocks_table := [block_row genesis]\<rparr>)"
  by (simp add: Block_save_def Let_def store0_def block_fields isTokenCreation_instances
      Transaction_save_def isValid_marked isValid_genesis_reward amount_instances
      genesis_saved_def)

lemma Block_save_block1:
  "Block_save toy block1 (store0\<lparr>transactions_table :=
                      [genesis_reward\<lparr>blockHash := Some ''005'', index_in_block := Some 0\<rparr>],
                    pending_transactions_table := [], blocks_table := [block_row genesis]\<rparr>) =
     (None, block1_saved,
      store0\<lparr>transactions_table :=
                [genesis_reward\<lparr>blockHash := Some ''005'', index_in_block := Some 0\<rparr>,
                 alice_signed\<lparr>blockHash := Some ''009'', index_in_block := Some 0\<rparr>,
                 reward_tx\<lparr>blockHash := Some ''009'', index_in_block := Some 1\<rparr>],
              pending_transactions_table := [],
              blocks_table := [block_row genesis, block_row block1]\<rparr>)"
  by (simp add: Block_save_def Let_def store0_def block_fields isTokenCreation_instances
      Transaction_save_def isValid_marked isValid_alice_signed isValid_reward_tx hash_instances
      amount_instances block1_saved_def block_row_def)

lemma replaceChain_instance:
  "replaceChain toy [genesis, block1] node0 =
     (None, node0\<lparr>chain := [genesis_saved, block1_saved],
                 db := store0\<lparr>transactions_table :=
                      [genesis_reward\<lparr>blockHash := Some ''005'', index_in_block := Some 0\<rparr>,
                       alice_signed\<lparr>blockHash := Some ''009'', index_in_block := Some 0\<rparr>,
                       reward_tx\<lparr>blockHash := Some ''009'', index_in_block := Some 1\<rparr>],
                    pending_transactions_table := [],
                    blocks_table := [block_row genesis, block_row block1]\<rparr>,
                 outbox := [FULL_CHAIN [genesis_saved, block1_saved]]\<rparr>)"
  by (simp add: replaceChain_def replace_body_def Let_def node0_def isValidChain_instance
      cumulative_instances clearLocalBlockchainData_def store0_fields Block_fromJSON_genesis
      Block_fromJSON_block1 Block_save_genesis Block_save_block1)

lemma addBlock_node_down:
  "addBlock toy block1 node_down = (Inr False, node_down\<lparr>chain := [genesis, block1]\<rparr>)"
proof -
  have "addBlock toy block1 node_down =
          (Inr False, node_down\<lparr>chain := chain node_down @ [block1]\<rparr>)"
    by (rule addBlock_store_error)
       (simp_all add: node_down_fields block_fields hasValidTransactions_block1
          Block_calculateHash_block1 meets_difficulty_def replicate_numeral)
  then show ?thesis by (simp add: node_down_fields)
qed

lemma mine_node_pending_down:
  "minePendingTransactions toy (Some ''miner1'') 8 9 node_pending_down =
     Some (node_pending_down\<lparr>chain := [genesis, block1]\<rparr>)"
proof -
  have nb: "Block_new toy (Suc 0) (Some ''005'') 9 [alice_signed, reward_tx] 2 = block1_unmined"
    by (simp add: block1_unmined_def)
  have rw: "rewardTransaction toy ''miner1'' (Dec 10000000000) 8 = reward_tx"
    by (simp add: reward_tx_def)
  have o: "calculateLastOriginTransactionHash genesis = None"
    by (simp add: calculateLastOriginTransactionHash_def genesis_eq more_origin_instances)
  have nc: "\<not> in_chain [genesis] alice_signed"
    by (simp add: in_chain_def block_fields hash_instances)
  show ?thesis
    by (simp add: minePendingTransactions_def mine_body_def Let_def node_pending_down_def
        node_down_def node0_def nc rw nb o block_fields mine_block1 Block_save_def store0_def)
qed

lemma mine_node_pending:
  "minePendingTransactions toy (Some ''miner1'') 8 9 node_pending =
     Some (node_pending\<lparr>chain := [genesis, block1_saved], pendingTransactions := [],
             transactionPool := {},
             db := store0\<lparr>transactions_table :=
                      [genesis_reward\<lparr>blockHash := Some ''005'', index_in_block := Some 0\<rparr>,
                       alice_signed\<lparr>blockHash := Some ''009'', index_in_block := Some 0\<rparr>,
                       reward_tx\<lparr>blockHash := Some ''009'', index_in_block := Some 1\<rparr>],
                    pending_transactions_table := [],
                    blocks_table := [block_row genesis, block_row block1]\<rparr>,
             outbox := [NEW_BLOCK block1_saved]\<rparr>)"
proof -
  have nb: "Block_new toy (Suc 0) (Some ''005'') 9 [alice_signed, reward_tx] 2 = block1_unmined"
    by (simp add: block1_unmined_def)
  have rw: "rewardTransaction toy ''miner1'' (Dec 10000000000) 8 = reward_tx"
    by (simp add: reward_tx_def)
  have o: "calculateLastOriginTransactionHash genesis = None"
    by (simp add: calculateLastOriginTransactionHash_def genesis_eq more_origin_instances)
  have nc: "\<not> in_chain [genesis] alice_signed"
    by (simp add: in_chain_def block_fields hash_instances)
  have sv: "Block_save toy block1
                (store0\<lparr>pending_transactions_table := [(''ab182'', alice_signed)]\<rparr>) =
     (None, block1_saved,
      store0\<lparr>transactions_table :=
                [genesis_reward\<lparr>blockHash := Some ''005'', index_in_block := Some 0\<rparr>,
                 alice_signed\<lparr>blockHash := Some ''009'', index_in_block := Some 0\<rparr>,
                 reward_tx\<lparr>blockHash := Some ''009'', index_in_block := Some 1\<rparr>],
              pending_transactions_table := [(''ab182'', alice_signed)],
              blocks_table := [block_row genesis, block_row block1]\<rparr>)"
    by (simp add: Block_save_def Let_def store0_def block_fields isTokenCreation_instances
        Transaction_save_def isValid_marked isValid_alice_signed isValid_reward_tx hash_instances
        amount_instances block1_saved_def block_row_def)
  have bs: "b_transactions block1_saved =
              [alice_signed\<lparr>blockHash := Some ''009'', index_in_block := Some 0\<rparr>,
               reward_tx\<lparr>blockHash := Some ''009'', index_in_block := Some 1\<rparr>]"
    by (simp add: block1_saved_def)
  show ?thesis
    by (simp add: minePendingTransactions_def mine_body_def Let_def node_pending_def
        node0_def nc rw nb o block_fields mine_block1 sv bs
        clearMinedTransactions_def hash_instances store0_fields)
qed

section \<open>The claims on the instance\<close>



text \<open>
  Claim C2, evaluated where the code departs from it. The store of the node rejects
  every query. \<open>addBlock\<close> is given a block that passes its four checks: it returns
  \<open>false\<close>, and the chain in memory holds the block. \<open>minePendingTransactions\<close>
  mines a block and fails to save it: the chain in memory holds the block too. Both
  append the block before they save it and do not take it back when the save fails.
\<close>

theorem failed_save_keeps_block:
  "chain node_down = [genesis] \<and> \<not> available (db node_down) \<and>
   addBlock toy block1 node_down = (Inr False, node_down\<lparr>chain := [genesis, block1]\<rparr>) \<and>
   chain (snd (addBlock toy block1 node_down)) \<noteq> chain node_down \<and>
   chain node_pending_down = [genesis] \<and> \<not> available (db node_pending_down) \<and>
   minePendingTransactions toy (Some ''miner1'') 8 9 node_pending_down =
     Some (node_pending_down\<lparr>chain := [genesis, block1]\<rparr>)"
  by (simp add: addBlock_node_down mine_node_pending_down node_down_fields)
     (simp add: node_pending_down_def node_down_fields)

theorem replaceChain_only_longer_and_heavier_witness:
  "length [genesis] \<le> length (chain node0) \<and> replaceChain toy [genesis] node0 = (None, node0) \<and>
   snd (replaceChain toy [genesis, block1] node0) \<noteq> node0 \<and>
   chain (snd (replaceChain toy [genesis, block1] node0)) = [genesis_saved, block1_saved] \<and>
   length (chain node0) < length [genesis, block1] \<and>
   isValidChain toy [genesis, block1] = Inr True \<and>
   calculateCumulativeDifficulty (chain node0) < calculateCumulativeDifficulty [genesis, block1]"
proof -
  have ne: "snd (replaceChain toy [genesis, block1] node0) \<noteq> node0"
  proof
    assume "snd (replaceChain toy [genesis, block1] node0) = node0"
    then have "chain (snd (replaceChain toy [genesis, block1] node0)) = chain node0"
      by simp
    then show False
      by (simp add: replaceChain_instance node0_fields)
  qed
  have "\<not> (\<exists>er. isValidChain toy [genesis] = Inl er)"
    by (simp add: isValidChain_def genesis_eq)
  then show ?thesis
    using ne replaceChain_only_longer_and_heavier [of "[genesis]" node0 toy]
      replaceChain_only_longer_and_heavier [of "[genesis, block1]" node0 toy]
    by (simp add: node0_fields replaceChain_instance)
qed

theorem hash_invariant_under_sign_witness:
  "hash alice_ready = calculateHash toy alice_ready \<and>
   signWithKeyPair toy ''k'' alice_ready = Inr alice_signed \<and>
   signWithAddress toy toy_wallets ''alice'' alice_ready = Inr alice_signed \<and>
   hash alice_signed = hash alice_ready \<and>
   calculateHash toy (alice_ready\<lparr>signature := Some ''3004kab182'', publicKey := Some ''04k''\<rparr>)
     = hash alice_ready"
proof -
  have h: "hash alice_ready = calculateHash toy alice_ready"
    unfolding calculateHash_alice_ready by (simp add: alice_ready_eq)
  show ?thesis
    using h sign_alice_ready sign_address_alice_ready
      hash_invariant_under_sign [OF h, where keyPair = "''k''" and tx' = alice_signed
        and wallets = toy_wallets and address = "''alice''" and tx'' = alice_signed
        and sg = "Some ''3004kab182''" and pk = "Some ''04k''"]
    by simp
qed



theorem calculateLastOriginTransactionHash_cases_witness:
  "b_transactions (block_of [linked_tx, reward_tx]) = [] @ [linked_tx, reward_tx] \<and>
   calculateLastOriginTransactionHash (block_of [linked_tx, reward_tx]) = Some ''ab182'' \<and>
   b_transactions (block_of [reward_tx]) = [reward_tx] \<and>
   calculateLastOriginTransactionHash (block_of [reward_tx]) = None \<and>
   b_transactions (block_of []) = [] \<and>
   calculateLastOriginTransactionHash (block_of []) = None"
  using calculateLastOriginTransactionHash_cases
          [of "block_of [linked_tx, reward_tx]" reward_tx "[]" linked_tx]
        calculateLastOriginTransactionHash_cases
          [of "block_of [reward_tx]" reward_tx "[]" linked_tx]
        calculateLastOriginTransactionHash_cases
          [of "block_of []" reward_tx "[]" linked_tx]
  by (simp add: transactions_block_of origin_instances)

text \<open>
  The empty string as an origin hash separates the code from the claim as first
  stated: alone in a block it is not returned, and before a reward it is returned
  where the claim says \<open>null\<close>.
\<close>

theorem calculateLastOriginTransactionHash_counterexample:
  "originTransactionHash empty_origin_tx = Some [] \<and>
   calculateLastOriginTransactionHash (block_of [empty_origin_tx]) = None \<and>
   calculateLastOriginTransactionHash (block_of [empty_origin_tx]) \<noteq>
     originTransactionHash empty_origin_tx \<and>
   originTransactionHash reward_tx = None \<and>
   calculateLastOriginTransactionHash (block_of [empty_origin_tx, reward_tx]) = Some [] \<and>
   calculateLastOriginTransactionHash (block_of [empty_origin_tx, reward_tx]) \<noteq> None"
  by (simp add: calculateLastOriginTransactionHash_def Let_def transactions_block_of
      origin_instances)

theorem mineBlock_zero_difficulty_witness:
  "mineBlock toy 0 (block_of [alice_ready]) = Some (block_of [alice_ready]) \<and>
   b_nonce (block_of [alice_ready]) = 0 \<and> b_hash (block_of [alice_ready]) = ''ab11''"
  using mineBlock_zero_difficulty [of toy "block_of [alice_ready]"]
  by (simp add: block_of_alice_eq)



theorem minePendingTransactions_all_mined_witness:
  "\<not> miningLock node_stale \<and> available (db node_stale) \<and>
   pendingTransactions node_stale = [genesis_reward] \<and>
   in_chain (chain node_stale) genesis_reward \<and>
   map snd (pending_transactions_table (db node_stale)) = [genesis_reward, alice_signed] \<and>
   minePendingTransactions toy (Some ''miner1'') 8 9 node_stale = Some node0"
proof -
  have f: "\<not> miningLock node_stale" "available (db node_stale)"
    "pendingTransactions node_stale = [genesis_reward]" "chain node_stale = [genesis]"
    "map snd (pending_transactions_table (db node_stale)) = [genesis_reward, alice_signed]"
    by (simp_all add: node_stale_def node0_def store0_def)
  have r: "node_stale\<lparr>pendingTransactions := [],
             db := (db node_stale)\<lparr>pending_transactions_table := []\<rparr>\<rparr> = node0"
    by (simp add: node_stale_def node0_def store0_def)
  have h: "pendingTransactions node_stale \<noteq> []"
    "\<forall>tx \<in> set (pendingTransactions node_stale). in_chain (chain node_stale) tx"
    by (simp_all add: f in_chain_genesis_reward)
  show ?thesis
    using f in_chain_genesis_reward
      minePendingTransactions_all_mined [OF f(1) f(2) h, of toy "Some ''miner1''" 8 9]
    by (simp add: r)
qed

theorem mineBlock_frame_witness:
  "mineBlock toy 2 (block_of [alice_ready]) =
     Some ((block_of [alice_ready])\<lparr>b_nonce := 3, b_hash := ''0011''\<rparr>) \<and>
   b_nonce (block_of [alice_ready]) = 0 \<and>
   b_transactions ((block_of [alice_ready])\<lparr>b_nonce := 3, b_hash := ''0011''\<rparr>) =
     b_transactions (block_of [alice_ready])"
  using mineBlock_block_of_alice mineBlock_frame [OF mineBlock_block_of_alice]
  by (simp add: block_of_alice_eq)

end
